theory Spec2Isabelle
  imports Complex_Main
begin

section \<open>Workflow engine: data model\<close>

text \<open>
  The embedding follows \<^verbatim>\<open>services/workflow/workflow-engine.ts\<close> (class
  \<^verbatim>\<open>WorkflowEngine\<close>), the workflow routes, the public API trigger route and
  \<^verbatim>\<open>AntiBanService\<close>. A node's \<^verbatim>\<open>data\<close> object is a record of optional
  fields (\<open>None\<close> is JavaScript's \<^verbatim>\<open>undefined\<close>); \<open>ndata = None\<close> is a node
  without a \<^verbatim>\<open>data\<close> object, on which every \<^verbatim>\<open>node.data.x\<close> raises a TypeError.
\<close>

record node_data =
  channel :: "string option"
  content :: "string option"
  subject :: "string option"
  tag :: "string option"
  updates :: "string option"
  title :: "string option"
  description :: "string option"
  assignedTo :: "string option"
  priority :: "string option"
  delayMs :: "int option"
  condition :: "string option"
  url :: "string option"

record node =
  nid :: string
  ntype :: string
  ndata :: "node_data option"

record edge =
  source :: string
  target :: string
  econdition :: "string option"

text \<open>The object an executor returns: \<^verbatim>\<open>{ triggered: true }\<close>, \<^verbatim>\<open>{ sent: true }\<close>, ...\<close>

datatype node_result =
    Triggered | Sent | Tagged | Untagged | Updated | Created | Delayed
  | Condition "string option" | WebhookSent | AiTriggered | Ended | Unknown

text \<open>
  Calls to the collaborators (\<^verbatim>\<open>app.addJob\<close>, \<^verbatim>\<open>app.db.query\<close>,
  \<^verbatim>\<open>app.db.update\<close>, \<^verbatim>\<open>app.db.insert\<close>) are values, with their arguments
  in the order of the source. The statements on the tables \<^verbatim>\<open>workflows\<close> and
  \<^verbatim>\<open>workflow_executions\<close>, which the model interprets, have a constructor each:
  the worker's \<^verbatim>\<open>SELECT nodes, edges\<close>, its insert and its final
  \<^verbatim>\<open>UPDATE ... SET status = 'completed'\<close>, the activation route's
  \<^verbatim>\<open>UPDATE workflows SET status = 'active'\<close>, the trigger route's
  \<^verbatim>\<open>SELECT id ... AND status = 'active'\<close>, and the rate limit's
  \<^verbatim>\<open>SELECT COUNT(*) FROM messages\<close>.
\<close>

datatype effect =
    AddJob string string "(string \<times> string option) list"
  | DbQuery string "string option list"
  | DbUpdate string "string option" "string option"
  | DbInsert string "(string \<times> string option) list"
  | SelectWorkflow string string
  | InsertExecution string string "string option" string
  | CompleteExecution nat "(string \<times> node_result) list"
  | ActivateWorkflow string string
  | SelectActiveWorkflow string string
  | CountMessages string string

datatype error =
    WorkflowNotFound | NoTriggerNode | TypeError | SyntaxError | CollaboratorError effect

record workflow_row =
  wf_id :: string
  wf_tenant_id :: string
  wf_nodes :: "node list"
  wf_edges :: "edge list"
  wf_status :: string
  run_once_per_lead :: bool

record execution =
  ex_id :: nat
  workflow_id :: string
  tenant_id :: string
  lead_id :: "string option"
  status :: string
  ctx :: string
  node_results :: "(string \<times> node_result) list"

text \<open>The entry of \<^verbatim>\<open>AntiBanService.reputationScores\<close>.\<close>

record ReputationScore =
  rs_tenantId :: string
  rs_channel :: string
  score :: real
  messagesSent :: nat
  messagesFailed :: nat
  lastMessageAt :: int

text \<open>
  The state the code reads and writes: the two tables, the calls made to the
  collaborators so far, the wall clock in milliseconds, and the in-memory reputation map.
\<close>

record state =
  workflows :: "workflow_row list"
  executions :: "execution list"
  effects :: "effect list"
  clock :: int
  reputationScores :: "string \<rightharpoonup> ReputationScore"

text \<open>
  How \<^verbatim>\<open>app.db.queryOne\<close> hands over the columns \<^verbatim>\<open>nodes\<close> and \<^verbatim>\<open>edges\<close>
  of a workflow: as the JSON text that the routes stored with \<^verbatim>\<open>JSON.stringify\<close>,
  or, as the \<^verbatim>\<open>pg\<close> driver does for a column of type JSONB, as the parsed array.
\<close>

datatype json_delivery = AsText | AsObject

text \<open>
  What the code cannot decide: which collaborator calls reject, how late a timer fires,
  the row count the rate-limit query returns, and the form in which JSON columns arrive.
\<close>

record env =
  fails :: "effect \<Rightarrow> bool"
  timer_lag :: nat
  messagesInLastHour :: "string \<Rightarrow> string \<Rightarrow> nat"
  json_columns :: json_delivery

section \<open>Node executors\<close>

text \<open>An awaited collaborator call: it rejects (the executor throws) or is performed.\<close>

definition perform :: "env \<Rightarrow> effect \<Rightarrow> 'a \<Rightarrow> state \<Rightarrow> (error + 'a) \<times> state" where
  "perform e eff r st =
     (if fails e eff then (Inl (CollaboratorError eff), st)
      else (Inr r, st\<lparr>effects := effects st @ [eff]\<rparr>))"

text \<open>
  \<^verbatim>\<open>setTimeout(resolve, ms)\<close> on Node.js: a delay below 1 or above
  \<open>2^31 - 1\<close> milliseconds is replaced by 1.
\<close>

definition setTimeout_ms :: "int \<Rightarrow> int" where
  "setTimeout_ms ms = (if 1 \<le> ms \<and> ms \<le> 2147483647 then ms else 1)"

text \<open>\<^verbatim>\<open>node.data.delayMs || 1000\<close>: an absent or zero value gives 1000.\<close>

definition delay_or_default :: "node_data \<Rightarrow> int" where
  "delay_or_default d = (case delayMs d of None \<Rightarrow> 1000 | Some n \<Rightarrow> if n = 0 then 1000 else n)"

text \<open>\<^verbatim>\<open>node.data.priority || 'medium'\<close>: absent or empty gives \<^verbatim>\<open>'medium'\<close>.\<close>

definition priority_or_default :: "node_data \<Rightarrow> string" where
  "priority_or_default d = (case priority d of None \<Rightarrow> ''medium'' | Some p \<Rightarrow> if p = [] then ''medium'' else p)"

definition handled_types :: "string list" where
  "handled_types = [''trigger'', ''send_message'', ''send_email'', ''add_tag'', ''remove_tag'',
     ''update_lead'', ''create_task'', ''delay'', ''condition'', ''webhook'', ''ai_agent'', ''end'']"

definition executeNode ::
  "env \<Rightarrow> node \<Rightarrow> string \<Rightarrow> string option \<Rightarrow> string option \<Rightarrow> state
     \<Rightarrow> (error + node_result) \<times> state" where
  "executeNode e n tenantId leadId context st =
    (if ntype n = ''trigger'' then (Inr Triggered, st)
     else if ntype n = ''send_message'' then
       (case ndata n of None \<Rightarrow> (Inl TypeError, st)
        | Some d \<Rightarrow> perform e (AddJob ''messages'' ''send-message''
            [(''tenantId'', Some tenantId), (''leadId'', leadId),
             (''channel'', channel d), (''content'', content d)]) Sent st)
     else if ntype n = ''send_email'' then
       (case ndata n of None \<Rightarrow> (Inl TypeError, st)
        | Some d \<Rightarrow> perform e (AddJob ''messages'' ''send-message''
            [(''tenantId'', Some tenantId), (''leadId'', leadId),
             (''channel'', Some ''email''), (''content'', content d),
             (''subject'', subject d)]) Sent st)
     else if ntype n = ''add_tag'' then
       (case ndata n of None \<Rightarrow> (Inl TypeError, st)
        | Some d \<Rightarrow> perform e (DbQuery
            ''UPDATE leads SET tags = array_append(tags, $1) WHERE id = $2 AND tenant_id = $3''
            [tag d, leadId, Some tenantId]) Tagged st)
     else if ntype n = ''remove_tag'' then
       (case ndata n of None \<Rightarrow> (Inl TypeError, st)
        | Some d \<Rightarrow> perform e (DbQuery
            ''UPDATE leads SET tags = array_remove(tags, $1) WHERE id = $2 AND tenant_id = $3''
            [tag d, leadId, Some tenantId]) Untagged st)
     else if ntype n = ''update_lead'' then
       (case ndata n of None \<Rightarrow> (Inl TypeError, st)
        | Some d \<Rightarrow> perform e (DbUpdate ''leads'' leadId (updates d)) Updated st)
     else if ntype n = ''create_task'' then
       (case ndata n of None \<Rightarrow> (Inl TypeError, st)
        | Some d \<Rightarrow> perform e (DbInsert ''tasks''
            [(''tenant_id'', Some tenantId), (''title'', title d),
             (''description'', description d), (''assigned_to'', assignedTo d),
             (''lead_id'', leadId), (''priority'', Some (priority_or_default d))]) Created st)
     else if ntype n = ''delay'' then
       (case ndata n of None \<Rightarrow> (Inl TypeError, st)
        | Some d \<Rightarrow> (Inr Delayed,
            st\<lparr>clock := clock st + setTimeout_ms (delay_or_default d) + int (timer_lag e)\<rparr>))
     else if ntype n = ''condition'' then
       (case ndata n of None \<Rightarrow> (Inl TypeError, st)
        | Some d \<Rightarrow> (Inr (Condition (condition d)), st))
     else if ntype n = ''webhook'' then
       (case ndata n of None \<Rightarrow> (Inl TypeError, st)
        | Some d \<Rightarrow> perform e (AddJob ''messages'' ''send-webhook''
            [(''tenantId'', Some tenantId), (''url'', url d),
             (''payload.leadId'', leadId), (''payload.context'', context)]) WebhookSent st)
     else if ntype n = ''ai_agent'' then (Inr AiTriggered, st)
     else if ntype n = ''end'' then (Inr Ended, st)
     else (Inr Unknown, st))"

text \<open>
  \<^verbatim>\<open>evaluateCondition\<close>: the body of the \<^verbatim>\<open>try\<close> is \<^verbatim>\<open>return true\<close>;
  nothing in it can throw, so the \<^verbatim>\<open>catch\<close> branch is never taken.
\<close>

definition evaluateCondition :: "string \<Rightarrow> node_result \<Rightarrow> bool" where
  "evaluateCondition cond result = True"

text \<open>
  The body of \<^verbatim>\<open>for (const edge of outgoingEdges)\<close>: \<^verbatim>\<open>if (edge.condition)\<close>
  holds for a present, non-empty string.
\<close>

definition edge_taken :: "node_result \<Rightarrow> edge \<Rightarrow> bool" where
  "edge_taken result ed =
     (case econdition ed of
        None \<Rightarrow> True
      | Some c \<Rightarrow> if c = [] then True else evaluateCondition c result)"

definition next_targets :: "edge list \<Rightarrow> string \<Rightarrow> node_result \<Rightarrow> string list" where
  "next_targets edges nodeId result =
     map target (filter (edge_taken result) (filter (\<lambda>ed. source ed = nodeId) edges))"

section \<open>Traversal\<close>

text \<open>
  The \<^verbatim>\<open>while (queue.length > 0)\<close> loop of \<^verbatim>\<open>executeNodes\<close>, on the queue, the
  set \<^verbatim>\<open>executedNodes\<close> and the list \<^verbatim>\<open>results\<close>. An executor that throws ends the
  loop: the exception leaves \<^verbatim>\<open>executeNodes\<close> and the local \<^verbatim>\<open>results\<close> is lost.
\<close>

function bfs ::
  "env \<Rightarrow> node list \<Rightarrow> edge list \<Rightarrow> string \<Rightarrow> string option \<Rightarrow> string option
     \<Rightarrow> string list \<Rightarrow> string set \<Rightarrow> (string \<times> node_result) list \<Rightarrow> state
     \<Rightarrow> (error + (string \<times> node_result) list) \<times> state" where
  "bfs e nodes edges tenantId leadId context [] executedNodes results st = (Inr results, st)"
| "bfs e nodes edges tenantId leadId context (nodeId # queue) executedNodes results st =
     (if nodeId \<in> executedNodes then
        bfs e nodes edges tenantId leadId context queue executedNodes results st
      else
        (case find (\<lambda>n. nid n = nodeId) nodes of
           None \<Rightarrow> bfs e nodes edges tenantId leadId context queue executedNodes results st
         | Some n \<Rightarrow>
             (case executeNode e n tenantId leadId context st of
                (Inl err, st') \<Rightarrow> (Inl err, st')
              | (Inr result, st') \<Rightarrow>
                  bfs e nodes edges tenantId leadId context
                    (queue @ next_targets edges nodeId result)
                    (insert nodeId executedNodes)
                    (results @ [(nodeId, result)]) st')))"
  by pat_completeness auto


text \<open>
  \<^verbatim>\<open>executeNodes\<close>: the trigger node is the first node of type \<^verbatim>\<open>'trigger'\<close>;
  the queue starts with its id, \<^verbatim>\<open>executedNodes\<close> and \<^verbatim>\<open>results\<close> start empty.
\<close>

definition executeNodes ::
  "env \<Rightarrow> node list \<Rightarrow> edge list \<Rightarrow> nat \<Rightarrow> string \<Rightarrow> string option \<Rightarrow> string option
     \<Rightarrow> state \<Rightarrow> (error + (string \<times> node_result) list) \<times> state" where
  "executeNodes e nodes edges executionId tenantId leadId context st =
     (case find (\<lambda>n. ntype n = ''trigger'') nodes of
        None \<Rightarrow> (Inl NoTriggerNode, st)
      | Some triggerNode \<Rightarrow>
          bfs e nodes edges tenantId leadId context [nid triggerNode] {} [] st)"

section \<open>The worker handler and the entry points\<close>

record job =
  workflowId :: string
  tenantId :: string
  leadId :: "string option"
  triggerData :: "string option"

text \<open>
  The trigger data is held as its JSON text. The falsy values of JavaScript that a job
  can carry are \<^verbatim>\<open>0\<close>, \<^verbatim>\<open>false\<close>, \<^verbatim>\<open>null\<close> and the empty string, whose
  JSON text is two double quotes.
\<close>

definition falsy_json :: "string \<Rightarrow> bool" where
  "falsy_json t = (t = ''0'' \<or> t = ''false'' \<or> t = ''null'' \<or> t = [CHR 0x22, CHR 0x22])"

text \<open>
  \<^verbatim>\<open>JSON.stringify(triggerData || {})\<close>: absent or falsy trigger data is stored as
  \<^verbatim>\<open>{}\<close>.
\<close>

definition context_json :: "string option \<Rightarrow> string" where
  "context_json td =
     (case td of None \<Rightarrow> ''{}'' | Some t \<Rightarrow> if falsy_json t then ''{}'' else t)"

text \<open>
  \<^verbatim>\<open>JSON.parse(workflow.nodes)\<close> and \<^verbatim>\<open>JSON.parse(workflow.edges)\<close>: the JSON
  text of a graph parses to the graph. An array that arrives already parsed is first
  turned into a string (empty for the empty array, \<^verbatim>\<open>[object Object],...\<close> for an
  array of nodes or edges), which is not JSON: a SyntaxError.
\<close>

definition JSON_parse :: "env \<Rightarrow> 'a list \<Rightarrow> error + 'a list" where
  "JSON_parse e v = (case json_columns e of AsText \<Rightarrow> Inr v | AsObject \<Rightarrow> Inl SyntaxError)"

text \<open>
  The handler given to \<^verbatim>\<open>new Worker('workflows', ...)\<close> in \<^verbatim>\<open>initialize\<close>.
  Its \<^verbatim>\<open>catch\<close> logs and rethrows: an error leaves the state as it was when the
  error was raised. The two \<^verbatim>\<open>JSON.parse\<close> calls come before the insert, so a
  SyntaxError leaves no row. The database gives the new row its id; here it is the row's position.
\<close>

definition worker :: "env \<Rightarrow> job \<Rightarrow> state \<Rightarrow> (error + nat \<times> (string \<times> node_result) list) \<times> state" where
  "worker e j st =
     (let sel = SelectWorkflow (workflowId j) (tenantId j) in
      if fails e sel then (Inl (CollaboratorError sel), st)
      else
        (case find (\<lambda>w. wf_id w = workflowId j \<and> wf_tenant_id w = tenantId j) (workflows st) of
           None \<Rightarrow> (Inl WorkflowNotFound, st)
         | Some workflow \<Rightarrow>
             (case JSON_parse e (wf_nodes workflow) of
                Inl err \<Rightarrow> (Inl err, st)
              | Inr nodes \<Rightarrow>
                  (case JSON_parse e (wf_edges workflow) of
                     Inl err \<Rightarrow> (Inl err, st)
                   | Inr edges \<Rightarrow>
                       (let ins = InsertExecution (workflowId j) (tenantId j) (leadId j)
                                    (context_json (triggerData j)) in
                        if fails e ins then (Inl (CollaboratorError ins), st)
                        else
                          (let ex = \<lparr>ex_id = length (executions st), workflow_id = workflowId j,
                                      tenant_id = tenantId j, lead_id = leadId j,
                                      status = ''running'', ctx = context_json (triggerData j),
                                      node_results = []\<rparr>;
                               st1 = st\<lparr>executions := executions st @ [ex]\<rparr>
                           in
                             (case executeNodes e nodes edges (ex_id ex)
                                     (tenantId j) (leadId j) (triggerData j) st1 of
                                (Inl err, st2) \<Rightarrow> (Inl err, st2)
                              | (Inr results, st2) \<Rightarrow>
                                  (let upd = CompleteExecution (ex_id ex) results in
                                   if fails e upd then (Inl (CollaboratorError upd), st2)
                                   else
                                     (Inr (ex_id ex, results),
                                      st2\<lparr>executions :=
                                        map (\<lambda>x. if ex_id x = ex_id ex
                                                  then x\<lparr>status := ''completed'',
                                                         node_results := results\<rparr>
                                                  else x)
                                            (executions st2)\<rparr>)))))))))"

text \<open>A JavaScript object with string and number fields; an absent field reads \<^verbatim>\<open>undefined\<close>.\<close>

datatype jsvalue = Str string | Num nat | Undefined

type_synonym jsobject = "(string \<times> jsvalue) list"

definition field :: "jsobject \<Rightarrow> string \<Rightarrow> jsvalue" where
  "field obj k = (case map_of obj k of None \<Rightarrow> Undefined | Some v \<Rightarrow> v)"

record execute_data =
  d_tenantId :: string
  d_leadId :: "string option"
  d_triggerData :: "string option"

text \<open>
  \<^verbatim>\<open>WorkflowEngine.execute\<close>: one \<^verbatim>\<open>addJob\<close>, then
  \<^verbatim>\<open>{ jobId: job.id, status: 'queued' }\<close>. The queue numbers its jobs; the id is
  the number of collaborator calls made before this one.
\<close>

definition execute :: "env \<Rightarrow> string \<Rightarrow> execute_data \<Rightarrow> state \<Rightarrow> (error + jsobject) \<times> state" where
  "execute e wid d st =
     perform e (AddJob ''workflows'' ''execute-workflow''
         [(''workflowId'', Some wid), (''tenantId'', Some (d_tenantId d)),
          (''leadId'', d_leadId d), (''triggerData'', d_triggerData d)])
       [(''jobId'', Num (length (effects st))), (''status'', Str ''queued'')] st"

text \<open>A reply: the HTTP status, \<^verbatim>\<open>success\<close>, and the fields of \<^verbatim>\<open>data\<close> or \<^verbatim>\<open>error\<close>.\<close>

datatype reply = Reply nat bool jsobject

text \<open>\<^verbatim>\<open>POST /workflows/:id/trigger\<close> of the public API.\<close>

definition trigger_route ::
  "env \<Rightarrow> string \<Rightarrow> string \<Rightarrow> string option \<Rightarrow> string option \<Rightarrow> state \<Rightarrow> (error + reply) \<times> state" where
  "trigger_route e wid tid lead dat st =
     (let sel = SelectActiveWorkflow wid tid in
      if fails e sel then (Inl (CollaboratorError sel), st)
      else
        (case find (\<lambda>w. wf_id w = wid \<and> wf_tenant_id w = tid \<and> wf_status w = ''active'')
                (workflows st) of
           None \<Rightarrow>
             (Inr (Reply 404 False [(''code'', Str ''NOT_FOUND''),
                     (''message'', Str ''Workflow not found or not active'')]), st)
         | Some workflow \<Rightarrow>
             (case execute e wid \<lparr>d_tenantId = tid, d_leadId = lead, d_triggerData = dat\<rparr> st of
                (Inl err, st') \<Rightarrow> (Inl err, st')
              | (Inr execution, st') \<Rightarrow>
                  (Inr (Reply 200 True [(''executionId'', field execution ''id''),
                          (''status'', field execution ''status'')]), st'))))"

text \<open>\<^verbatim>\<open>POST /:id/activate\<close> of the workflow routes: one \<^verbatim>\<open>UPDATE\<close>, then the reply.\<close>

definition activate :: "env \<Rightarrow> string \<Rightarrow> string \<Rightarrow> state \<Rightarrow> (error + reply) \<times> state" where
  "activate e wid tid st =
     (let upd = ActivateWorkflow wid tid in
      if fails e upd then (Inl (CollaboratorError upd), st)
      else
        (Inr (Reply 200 True [(''message'', Str ''Workflow activated'')]),
         st\<lparr>workflows :=
              map (\<lambda>w. if wf_id w = wid \<and> wf_tenant_id w = tid
                        then w\<lparr>wf_status := ''active''\<rparr> else w)
                  (workflows st)\<rparr>))"

section \<open>Anti-ban service\<close>

definition rep_key :: "string \<Rightarrow> string \<Rightarrow> string" where
  "rep_key tid ch = tid @ '':'' @ ch"

text \<open>
  \<^verbatim>\<open>calculateScore\<close>, with the reading of the clock it makes as \<open>now\<close>. Its only
  caller has incremented \<^verbatim>\<open>messagesSent\<close> before, so the divisor is never 0 there.
\<close>

definition calculateScore :: "ReputationScore \<Rightarrow> int \<Rightarrow> real" where
  "calculateScore reputation now =
     (let failureRate = real (messagesFailed reputation) / real (messagesSent reputation);
          score0 = 100 - failureRate * 50;
          timeSinceLastMessage = now - lastMessageAt reputation;
          score1 = (if timeSinceLastMessage < 1000 then score0 - 10 else score0)
      in max 0 (min 100 score1))"

text \<open>
  \<^verbatim>\<open>recordMessage\<close> on the map \<^verbatim>\<open>reputationScores\<close>; \<open>now\<close> is the clock read
  for \<^verbatim>\<open>lastMessageAt\<close>, \<open>now'\<close> the one read inside \<^verbatim>\<open>calculateScore\<close>.
\<close>

definition recordMessage ::
  "string \<Rightarrow> string \<Rightarrow> bool \<Rightarrow> int \<Rightarrow> int \<Rightarrow> (string \<rightharpoonup> ReputationScore)
     \<Rightarrow> (string \<rightharpoonup> ReputationScore)" where
  "recordMessage tid ch success now now' m =
     (case m (rep_key tid ch) of
        Some existing \<Rightarrow>
          (let r = existing\<lparr>messagesSent := messagesSent existing + 1,
                     messagesFailed := (if \<not> success then messagesFailed existing + 1
                                        else messagesFailed existing),
                     lastMessageAt := now\<rparr>
           in m(rep_key tid ch \<mapsto> r\<lparr>score := calculateScore r now'\<rparr>))
      | None \<Rightarrow>
          m(rep_key tid ch \<mapsto>
            \<lparr>rs_tenantId = tid, rs_channel = ch, score = (if success then 100 else 90),
             messagesSent = 1, messagesFailed = (if success then 0 else 1),
             lastMessageAt = now\<rparr>))"

record message_call =
  mc_tenantId :: string
  mc_channel :: string
  mc_success :: bool
  mc_now :: int
  mc_now' :: int

text \<open>A sequence of \<^verbatim>\<open>recordMessage\<close> calls, oldest first.\<close>

fun recordMessages :: "message_call list \<Rightarrow> (string \<rightharpoonup> ReputationScore) \<Rightarrow> (string \<rightharpoonup> ReputationScore)" where
  "recordMessages [] m = m"
| "recordMessages (c # cs) m =
     recordMessages cs (recordMessage (mc_tenantId c) (mc_channel c) (mc_success c) (mc_now c) (mc_now' c) m)"

text \<open>\<^verbatim>\<open>checkRateLimit\<close>: the pair is \<^verbatim>\<open>allowed\<close> and \<^verbatim>\<open>retryAfter\<close>.\<close>

definition checkRateLimit :: "env \<Rightarrow> string \<Rightarrow> string \<Rightarrow> state \<Rightarrow> error + bool \<times> nat option" where
  "checkRateLimit e tid ch st =
     (case reputationScores st (rep_key tid ch) of
        None \<Rightarrow> Inr (True, None)
      | Some reputation \<Rightarrow>
          if score reputation < 30 then Inr (False, Some 3600)
          else if fails e (CountMessages tid ch) then Inl (CollaboratorError (CountMessages tid ch))
          else if messagesInLastHour e tid ch \<ge> 100 then Inr (False, Some 3600)
          else Inr (True, None))"

section \<open>Concrete inputs\<close>

text \<open>
  An environment in which no collaborator call rejects, timers fire on time and the
  graph columns arrive as JSON text.
\<close>

definition env_ok :: env where
  "env_ok = \<lparr>fails = (\<lambda>_. False), timer_lag = 0, messagesInLastHour = (\<lambda>_ _. 0),
     json_columns = AsText\<rparr>"

text \<open>The same environment with 100 messages counted in the last hour.\<close>

definition env_busy :: env where
  "env_busy = env_ok\<lparr>messagesInLastHour := (\<lambda>_ _. 100)\<rparr>"

definition empty_state :: state where
  "empty_state = \<lparr>workflows = [], executions = [], effects = [], clock = 0,
     reputationScores = Map.empty\<rparr>"

text \<open>A graph with the back-edge \<open>b \<rightarrow> a\<close> and an edge to a node that does not exist.\<close>

definition cyclic_nodes :: "node list" where
  "cyclic_nodes =
     [\<lparr>nid = ''t'', ntype = ''trigger'', ndata = None\<rparr>,
      \<lparr>nid = ''a'', ntype = ''ai_agent'', ndata = None\<rparr>,
      \<lparr>nid = ''b'', ntype = ''end'', ndata = None\<rparr>]"

definition cyclic_edges :: "edge list" where
  "cyclic_edges =
     [\<lparr>source = ''t'', target = ''a'', econdition = None\<rparr>,
      \<lparr>source = ''a'', target = ''b'', econdition = None\<rparr>,
      \<lparr>source = ''b'', target = ''a'', econdition = None\<rparr>,
      \<lparr>source = ''b'', target = ''t'', econdition = None\<rparr>]"

definition no_data :: node_data where
  "no_data = \<lparr>channel = None, content = None, subject = None, tag = None, updates = None,
     title = None, description = None, assignedTo = None, priority = None, delayMs = None,
     condition = None, url = None\<rparr>"

definition delay_node :: node where
  "delay_node = \<lparr>nid = ''d'', ntype = ''delay'', ndata = Some (no_data\<lparr>delayMs := Some 5000\<rparr>)\<rparr>"

text \<open>A delay of 3000000000 ms, a little under 35 days.\<close>

definition long_delay_node :: node where
  "long_delay_node =
     \<lparr>nid = ''d'', ntype = ''delay'', ndata = Some (no_data\<lparr>delayMs := Some 3000000000\<rparr>)\<rparr>"

text \<open>The state in which the worker has inserted the execution and runs its nodes.\<close>

definition running_state :: state where
  "running_state = empty_state\<lparr>executions :=
     [\<lparr>ex_id = 0, workflow_id = ''w1'', tenant_id = ''t1'', lead_id = Some ''lead1'',
       status = ''running'', ctx = ''{}'', node_results = []\<rparr>]\<rparr>"

text \<open>A workflow whose \<^verbatim>\<open>send_message\<close> node has no \<^verbatim>\<open>data\<close> object.\<close>

definition nodata_workflow :: workflow_row where
  "nodata_workflow =
     \<lparr>wf_id = ''w1'', wf_tenant_id = ''t1'',
      wf_nodes = [\<lparr>nid = ''t'', ntype = ''trigger'', ndata = None\<rparr>,
                  \<lparr>nid = ''s'', ntype = ''send_message'', ndata = None\<rparr>],
      wf_edges = [\<lparr>source = ''t'', target = ''s'', econdition = None\<rparr>],
      wf_status = ''active'', run_once_per_lead = True\<rparr>"

definition nodata_state :: state where
  "nodata_state = empty_state\<lparr>workflows := [nodata_workflow]\<rparr>"

definition lead1_job :: job where
  "lead1_job = \<lparr>workflowId = ''w1'', tenantId = ''t1'', leadId = Some ''lead1'',
     triggerData = None\<rparr>"

definition lead1_data :: execute_data where
  "lead1_data = \<lparr>d_tenantId = ''t1'', d_leadId = Some ''lead1'', d_triggerData = None\<rparr>"

text \<open>A draft workflow with an edge to the node id \<open>ghost\<close>, which no node has.\<close>

definition dangling_workflow :: workflow_row where
  "dangling_workflow =
     \<lparr>wf_id = ''w2'', wf_tenant_id = ''t1'',
      wf_nodes = [\<lparr>nid = ''t'', ntype = ''trigger'', ndata = None\<rparr>],
      wf_edges = [\<lparr>source = ''t'', target = ''ghost'', econdition = None\<rparr>],
      wf_status = ''draft'', run_once_per_lead = True\<rparr>"

definition dangling_state :: state where
  "dangling_state = empty_state\<lparr>workflows := [dangling_workflow]\<rparr>"

text \<open>A tenant with one WhatsApp message recorded, a success at time 0.\<close>

definition denied_state :: state where
  "denied_state = empty_state\<lparr>reputationScores :=
     recordMessage ''t1'' ''whatsapp'' True 0 0 Map.empty\<rparr>"

definition send_node :: node where
  "send_node = \<lparr>nid = ''s'', ntype = ''send_message'',
     ndata = Some (no_data\<lparr>channel := Some ''whatsapp'', content := Some ''Welcome''\<rparr>)\<rparr>"

text \<open>An edge whose condition names a variable, with an empty trigger payload.\<close>

definition cond_nodes :: "node list" where
  "cond_nodes =
     [\<lparr>nid = ''t'', ntype = ''trigger'', ndata = None\<rparr>,
      \<lparr>nid = ''e'', ntype = ''end'', ndata = None\<rparr>]"

definition cond_edges :: "edge list" where
  "cond_edges = [\<lparr>source = ''t'', target = ''e'', econdition = Some ''context.plan == 1''\<rparr>]"

text \<open>
  A graph with a \<^verbatim>\<open>wait_for_reply\<close> node \<open>w\<close> whose successors are a
  \<^verbatim>\<open>split_path\<close> node \<open>x\<close> and, over a conditional edge, the end node \<open>y\<close>.
\<close>

definition wait_node :: node where
  "wait_node = \<lparr>nid = ''w'', ntype = ''wait_for_reply'', ndata = None\<rparr>"

definition wait_nodes :: "node list" where
  "wait_nodes =
     [\<lparr>nid = ''t'', ntype = ''trigger'', ndata = None\<rparr>,
      wait_node,
      \<lparr>nid = ''x'', ntype = ''split_path'', ndata = None\<rparr>,
      \<lparr>nid = ''y'', ntype = ''end'', ndata = None\<rparr>]"

definition wait_edges :: "edge list" where
  "wait_edges =
     [\<lparr>source = ''t'', target = ''w'', econdition = None\<rparr>,
      \<lparr>source = ''w'', target = ''x'', econdition = None\<rparr>,
      \<lparr>source = ''w'', target = ''y'', econdition = Some ''replied''\<rparr>,
      \<lparr>source = ''x'', target = ''y'', econdition = None\<rparr>]"

definition two_calls :: "message_call list" where
  "two_calls =
     [\<lparr>mc_tenantId = ''t1'', mc_channel = ''sms'', mc_success = True, mc_now = 0, mc_now' = 0\<rparr>,
      \<lparr>mc_tenantId = ''t1'', mc_channel = ''sms'', mc_success = False, mc_now = 5000, mc_now' = 5000\<rparr>]"

section \<open>Termination of the traversal\<close>

lemma find_Some_nid: "find (\<lambda>n. nid n = k) nodes = Some n \<Longrightarrow> k \<in> nid ` set nodes"
  by (auto simp: find_Some_iff)

lemma card_unexecuted_less:
  assumes "nodeId \<notin> executedNodes" and "find (\<lambda>n. nid n = nodeId) nodes = Some n"
  shows "card (nid ` set nodes - insert nodeId executedNodes)
           < card (nid ` set nodes - executedNodes)"
proof -
  have mem: "nodeId \<in> nid ` set nodes - executedNodes"
    using assms find_Some_nid by fastforce
  have "nid ` set nodes - insert nodeId executedNodes
          = (nid ` set nodes - executedNodes) - {nodeId}"
    by auto
  moreover have "card ((nid ` set nodes - executedNodes) - {nodeId})
          < card (nid ` set nodes - executedNodes)"
    using mem by (intro card_Diff1_less) auto
  ultimately show ?thesis
    by simp
qed

text \<open>
  The loop ends on every graph: an iteration either only shortens the queue, or executes a
  node whose id was not yet in \<^verbatim>\<open>executedNodes\<close>, and there are finitely many ids.
\<close>

termination bfs
  by (relation "measures
    [\<lambda>(e, nodes, edges, tenantId, leadId, context, queue, executedNodes, results, st).
        card (nid ` set nodes - executedNodes),
     \<lambda>(e, nodes, edges, tenantId, leadId, context, queue, executedNodes, results, st).
        length queue]")
     (simp_all add: card_unexecuted_less)

text \<open>The loop equation is unfolded on demand only.\<close>

declare bfs.simps [simp del]

section \<open>Each node runs at most once in a pass\<close>

text \<open>
  The invariant of the loop: the ids in \<^verbatim>\<open>results\<close> are distinct, they are all in
  \<^verbatim>\<open>executedNodes\<close>, and \<^verbatim>\<open>executedNodes\<close> holds ids of nodes of the graph only.
\<close>

lemma bfs_distinct:
  "bfs en ns es tn ld cx qu vis rs st = (Inr out, st') \<Longrightarrow>
   distinct (map fst rs) \<Longrightarrow> fst ` set rs \<subseteq> vis \<Longrightarrow> vis \<subseteq> nid ` set ns \<Longrightarrow>
   distinct (map fst out) \<and> fst ` set out \<subseteq> nid ` set ns"
proof (induction en ns es tn ld cx qu vis rs st rule: bfs.induct)
  case (1 e nodes edges tid lead cx executedNodes results st)
  then show ?case by (auto simp: bfs.simps)
next
  case (2 e nodes edges tid lead cx nodeId queue executedNodes results st)
  show ?case
  proof (cases "nodeId \<in> executedNodes")
    case True
    with 2 show ?thesis by (simp add: bfs.simps)
  next
    case False
    show ?thesis
    proof (cases "find (\<lambda>n. nid n = nodeId) nodes")
      case None
      with False 2 show ?thesis by (simp add: bfs.simps)
    next
      case (Some n)
      obtain r st1 where ex: "executeNode e n tid lead cx st = (r, st1)"
        by (cases "executeNode e n tid lead cx st")
      show ?thesis
      proof (cases r)
        case (Inl err)
        with False Some ex "2.prems" show ?thesis by (simp add: bfs.simps)
      next
        case (Inr result)
        have run: "bfs e nodes edges tid lead cx (queue @ next_targets edges nodeId result)
            (insert nodeId executedNodes) (results @ [(nodeId, result)]) st1 = (Inr out, st')"
          using False Some ex Inr "2.prems"(1) by (simp add: bfs.simps)
        have d: "distinct (map fst (results @ [(nodeId, result)]))"
          using "2.prems" False by auto
        have s: "fst ` set (results @ [(nodeId, result)]) \<subseteq> insert nodeId executedNodes"
          using "2.prems" by auto
        have k: "insert nodeId executedNodes \<subseteq> nid ` set nodes"
          using "2.prems" find_Some_nid [OF Some] by auto
        show ?thesis
          using "2.IH"(3) [OF False Some ex [symmetric] Inr run d s k] .
      qed
    qed
  qed
qed

text \<open>
  Claim C2. On every graph, cyclic or not, one pass of \<^verbatim>\<open>executeNodes\<close> executes
  each node at most once: no node id occurs twice in the results it returns, every id in
  them is the id of a node of the graph, and there are at most as many results as nodes.
  The loop itself ends on every input, which is the termination proof of \<open>bfs\<close> above.
\<close>

theorem executeNodes_each_node_once:
  assumes "executeNodes e nodes edges executionId tid lead cx st = (Inr results, st')"
  shows "distinct (map fst results) \<and> fst ` set results \<subseteq> nid ` set nodes
           \<and> length results \<le> length nodes"
proof -
  obtain trg :: node where run: "bfs e nodes edges tid lead cx [nid trg] {} [] st = (Inr results, st')"
    using assms by (auto simp: executeNodes_def split: option.splits)
  have a: "distinct (map fst results) \<and> fst ` set results \<subseteq> nid ` set nodes"
    using bfs_distinct [OF run] by simp
  then have "length results = card (fst ` set results)"
    by (metis distinct_card length_map set_map)
  also have "\<dots> \<le> card (nid ` set nodes)"
    using a by (intro card_mono) auto
  also have "\<dots> \<le> length nodes"
    by (metis card_length length_map set_map)
  finally show ?thesis using a by simp
qed

text \<open>The pass on a graph with the cycle \<open>a \<rightarrow> b \<rightarrow> a\<close> and the back-edge \<open>b \<rightarrow> t\<close>.\<close>

theorem executeNodes_each_node_once_witness:
  "executeNodes env_ok cyclic_nodes cyclic_edges 0 ''t1'' None None empty_state
     = (Inr [(''t'', Triggered), (''a'', AiTriggered), (''b'', Ended)], empty_state)
   \<and> distinct (map fst [(''t'', Triggered), (''a'', AiTriggered), (''b'', Ended)])
   \<and> length [(''t'', Triggered), (''a'', AiTriggered), (''b'', Ended)] \<le> length cyclic_nodes"
proof -
  have run: "executeNodes env_ok cyclic_nodes cyclic_edges 0 ''t1'' None None empty_state
     = (Inr [(''t'', Triggered), (''a'', AiTriggered), (''b'', Ended)], empty_state)"
    by (simp add: executeNodes_def cyclic_nodes_def cyclic_edges_def executeNode_def
        next_targets_def edge_taken_def bfs.simps)
  from executeNodes_each_node_once [OF run] run show ?thesis by blast
qed

section \<open>Node types without a case\<close>

text \<open>Every edge passes its check, since \<^verbatim>\<open>evaluateCondition\<close> answers \<^verbatim>\<open>true\<close>.\<close>

lemma next_targets_all:
  "next_targets edges nodeId result = map target (filter (\<lambda>ed. source ed = nodeId) edges)"
proof -
  have "edge_taken result = (\<lambda>_. True)"
    by (auto simp: edge_taken_def evaluateCondition_def fun_eq_iff split: option.splits)
  then show ?thesis by (simp add: next_targets_def)
qed

lemma executeNode_default:
  "ntype n \<notin> set handled_types \<Longrightarrow> executeNode e n tid lead cx st = (Inr Unknown, st)"
  by (simp add: handled_types_def executeNode_def)

lemma find_None_nid: "find (\<lambda>n. nid n = k) nodes = None \<Longrightarrow> k \<notin> nid ` set nodes"
  by (auto simp: find_None_iff)

text \<open>
  What a pass that returns has done with its queue: the results it started with are still
  there, and every queued id that is a node of the graph was executed before or is among
  the results.
\<close>

lemma bfs_serves_queue:
  "bfs en ns es tn ld cx qu vis rs st = (Inr out, st') \<Longrightarrow>
   set rs \<subseteq> set out \<and> (\<forall>q \<in> set qu. q \<in> nid ` set ns \<longrightarrow> q \<in> vis \<union> fst ` set out)"
proof (induction en ns es tn ld cx qu vis rs st rule: bfs.induct)
  case (1 e nodes edges tid lead cx executedNodes results st)
  then show ?case by (simp add: bfs.simps)
next
  case (2 e nodes edges tid lead cx nodeId queue executedNodes results st)
  show ?case
  proof (cases "nodeId \<in> executedNodes")
    case True
    then have "bfs e nodes edges tid lead cx queue executedNodes results st = (Inr out, st')"
      using "2.prems" by (simp add: bfs.simps)
    from "2.IH"(1) [OF True this] True show ?thesis by simp
  next
    case False
    show ?thesis
    proof (cases "find (\<lambda>n. nid n = nodeId) nodes")
      case None
      then have "bfs e nodes edges tid lead cx queue executedNodes results st = (Inr out, st')"
        using "2.prems" False by (simp add: bfs.simps)
      from "2.IH"(2) [OF False None this] find_None_nid [OF None] show ?thesis by simp
    next
      case (Some n)
      obtain r st1 where ex: "executeNode e n tid lead cx st = (r, st1)"
        by (cases "executeNode e n tid lead cx st")
      show ?thesis
      proof (cases r)
        case (Inl err)
        with False Some ex "2.prems" show ?thesis by (simp add: bfs.simps)
      next
        case (Inr result)
        have run: "bfs e nodes edges tid lead cx (queue @ next_targets edges nodeId result)
            (insert nodeId executedNodes) (results @ [(nodeId, result)]) st1 = (Inr out, st')"
          using False Some ex Inr "2.prems" by (simp add: bfs.simps)
        from "2.IH"(3) [OF False Some ex [symmetric] Inr run]
        have sub: "set (results @ [(nodeId, result)]) \<subseteq> set out"
          and served: "\<forall>q \<in> set (queue @ next_targets edges nodeId result).
              q \<in> nid ` set nodes \<longrightarrow> q \<in> insert nodeId executedNodes \<union> fst ` set out"
          by simp_all
        from sub have here: "nodeId \<in> fst ` set out"
          by force
        from sub have "set results \<subseteq> set out" by simp
        moreover have "\<forall>q \<in> set (nodeId # queue).
              q \<in> nid ` set nodes \<longrightarrow> q \<in> executedNodes \<union> fst ` set out"
          using served here by auto
        ultimately show ?thesis by simp
      qed
    qed
  qed
qed

text \<open>
  Claim C10. A node whose type is none of the twelve handled ones (\<^verbatim>\<open>wait_for_reply\<close>,
  \<^verbatim>\<open>split_path\<close>, any other string) does not make \<^verbatim>\<open>executeNode\<close> throw: the
  result is \<^verbatim>\<open>{ unknown: true }\<close> and the state is unchanged. When the loop takes
  such a node from the queue, it goes on as for any other node: with the result recorded,
  the node marked executed and the target of every outgoing edge queued. So in the
  results the pass returns, the node has the result \<^verbatim>\<open>{ unknown: true }\<close>, and each
  of its successors that is a node of the graph was executed, earlier in the pass or
  after the node.
\<close>

theorem executeNode_unknown_type:
  assumes "ntype n \<notin> set handled_types"
  shows "executeNode e n tid lead cx st = (Inr Unknown, st)
    \<and> (nid n \<notin> executedNodes \<longrightarrow> find (\<lambda>m. nid m = nid n) nodes = Some n \<longrightarrow>
        bfs e nodes edges tid lead cx (nid n # queue) executedNodes results st
        = bfs e nodes edges tid lead cx
            (queue @ map target (filter (\<lambda>ed. source ed = nid n) edges))
            (insert (nid n) executedNodes) (results @ [(nid n, Unknown)]) st)
    \<and> (nid n \<notin> executedNodes \<longrightarrow> find (\<lambda>m. nid m = nid n) nodes = Some n \<longrightarrow>
        bfs e nodes edges tid lead cx (nid n # queue) executedNodes results st = (Inr out, st') \<longrightarrow>
          (nid n, Unknown) \<in> set out
          \<and> (\<forall>ed \<in> set edges. source ed = nid n \<longrightarrow> target ed \<in> nid ` set nodes \<longrightarrow>
                target ed \<in> executedNodes \<union> fst ` set out))"
proof (intro conjI impI)
  show a: "executeNode e n tid lead cx st = (Inr Unknown, st)"
    by (rule executeNode_default [OF assms])
  assume fresh: "nid n \<notin> executedNodes" and found: "find (\<lambda>m. nid m = nid n) nodes = Some n"
  show step: "bfs e nodes edges tid lead cx (nid n # queue) executedNodes results st
        = bfs e nodes edges tid lead cx
            (queue @ map target (filter (\<lambda>ed. source ed = nid n) edges))
            (insert (nid n) executedNodes) (results @ [(nid n, Unknown)]) st"
    using a fresh found by (simp add: next_targets_all bfs.simps)
  assume "bfs e nodes edges tid lead cx (nid n # queue) executedNodes results st = (Inr out, st')"
  then have run: "bfs e nodes edges tid lead cx
            (queue @ map target (filter (\<lambda>ed. source ed = nid n) edges))
            (insert (nid n) executedNodes) (results @ [(nid n, Unknown)]) st = (Inr out, st')"
    using step by simp
  from bfs_serves_queue [OF run]
  have sub: "set (results @ [(nid n, Unknown)]) \<subseteq> set out"
    and served: "\<forall>q \<in> set (queue @ map target (filter (\<lambda>ed. source ed = nid n) edges)).
        q \<in> nid ` set nodes \<longrightarrow> q \<in> insert (nid n) executedNodes \<union> fst ` set out"
    by simp_all
  from sub show here: "(nid n, Unknown) \<in> set out" by simp
  then have self: "nid n \<in> fst ` set out" by force
  show "\<forall>ed \<in> set edges. source ed = nid n \<longrightarrow> target ed \<in> nid ` set nodes \<longrightarrow>
                target ed \<in> executedNodes \<union> fst ` set out"
  proof (intro ballI impI)
    fix ed assume "ed \<in> set edges" and "source ed = nid n" and t: "target ed \<in> nid ` set nodes"
    then have "target ed \<in> set (queue @ map target (filter (\<lambda>ed. source ed = nid n) edges))"
      by auto
    with served t have "target ed \<in> insert (nid n) executedNodes \<union> fst ` set out"
      by blast
    with self show "target ed \<in> executedNodes \<union> fst ` set out"
      by (cases "target ed = nid n") simp_all
  qed
qed

text \<open>
  The pass at the moment the loop takes the \<^verbatim>\<open>wait_for_reply\<close> node \<open>w\<close>, the
  trigger being executed: \<open>w\<close>, then its successors \<open>x\<close> and \<open>y\<close>, are executed.
\<close>

theorem executeNode_unknown_type_witness:
  "executeNode env_ok wait_node ''t1'' None None empty_state = (Inr Unknown, empty_state)
   \<and> bfs env_ok wait_nodes wait_edges ''t1'' None None [''w''] {''t''} [(''t'', Triggered)] empty_state
     = (Inr [(''t'', Triggered), (''w'', Unknown), (''x'', Unknown), (''y'', Ended)], empty_state)
   \<and> (''w'', Unknown) \<in> set [(''t'', Triggered), (''w'', Unknown), (''x'', Unknown), (''y'', Ended)]
   \<and> ''x'' \<in> fst ` set [(''t'', Triggered), (''w'', Unknown), (''x'', Unknown), (''y'', Ended)]
   \<and> ''y'' \<in> fst ` set [(''t'', Triggered), (''w'', Unknown), (''x'', Unknown), (''y'', Ended)]"
proof -
  have h: "ntype wait_node \<notin> set handled_types"
    by (simp add: wait_node_def handled_types_def)
  have fresh: "nid wait_node \<notin> {''t''}"
    by (simp add: wait_node_def)
  have found: "find (\<lambda>m. nid m = nid wait_node) wait_nodes = Some wait_node"
    by (simp add: wait_node_def wait_nodes_def)
  have run: "bfs env_ok wait_nodes wait_edges ''t1'' None None (nid wait_node # []) {''t''}
       [(''t'', Triggered)] empty_state
     = (Inr [(''t'', Triggered), (''w'', Unknown), (''x'', Unknown), (''y'', Ended)], empty_state)"
    by (simp add: wait_node_def wait_nodes_def wait_edges_def executeNode_def next_targets_def
        edge_taken_def evaluateCondition_def bfs.simps)
  from executeNode_unknown_type [OF h, of env_ok "''t1''" None None empty_state "{''t''}"
      wait_nodes wait_edges "[]" "[(''t'', Triggered)]"
      "[(''t'', Triggered), (''w'', Unknown), (''x'', Unknown), (''y'', Ended)]" empty_state]
    fresh found run
  show ?thesis
    by (simp add: wait_node_def)
qed

section \<open>Delay nodes\<close>

text \<open>
  Claim C1, on an Execution that is running at time 0. The \<^verbatim>\<open>delay\<close> case awaits a
  timer inside the worker and writes no row, under the comment that the delay is handled
  by job scheduling: after the node (here with a delay of 5000 ms) the status of the
  Execution is \<^verbatim>\<open>'running'\<close>, not \<^verbatim>\<open>'suspended'\<close>. And a delay of 3000000000 ms
  is over after 1 ms, long before now + \<open>D\<close>, Node.js replacing a timer delay above
  \<open>2^31 - 1\<close> by 1.
\<close>

theorem delay_node_stays_running:
  "fst (executeNode env_ok delay_node ''t1'' (Some ''lead1'') None running_state) = Inr Delayed
   \<and> map status (executions (snd (executeNode env_ok delay_node ''t1'' (Some ''lead1'') None running_state)))
       = [''running'']
   \<and> map status (executions (snd (executeNode env_ok delay_node ''t1'' (Some ''lead1'') None running_state)))
       \<noteq> [''suspended'']
   \<and> clock (snd (executeNode env_ok long_delay_node ''t1'' (Some ''lead1'') None running_state))
       = clock running_state + 1
   \<and> clock running_state + 1 < clock running_state + 3000000000"
  by (simp add: executeNode_def delay_node_def long_delay_node_def no_data_def running_state_def
      empty_state_def env_ok_def setTimeout_ms_def delay_or_default_def)

section \<open>The worker handler\<close>

text \<open>
  No executor, and so no pass, writes the table \<^verbatim>\<open>workflow_executions\<close>.
\<close>

lemma executeNode_executions:
  "executions (snd (executeNode e n tid lead cx st)) = executions st"
  by (simp add: executeNode_def perform_def split: option.splits)

lemma bfs_executions:
  "executions (snd (bfs e nodes edges tid lead cx queue executedNodes results st)) = executions st"
proof (induction e nodes edges tid lead cx queue executedNodes results st rule: bfs.induct)
  case (1 e nodes edges tid lead cx executedNodes results st)
  show ?case by (simp add: bfs.simps)
next
  case (2 e nodes edges tid lead cx nodeId queue executedNodes results st)
  show ?case
  proof (cases "nodeId \<in> executedNodes")
    case True
    with 2 show ?thesis by (simp add: bfs.simps)
  next
    case False
    show ?thesis
    proof (cases "find (\<lambda>n. nid n = nodeId) nodes")
      case None
      with False 2 show ?thesis by (simp add: bfs.simps)
    next
      case (Some n)
      obtain r st1 where ex: "executeNode e n tid lead cx st = (r, st1)"
        by (cases "executeNode e n tid lead cx st")
      have keep: "executions st1 = executions st"
        using executeNode_executions [of e n tid lead cx st] ex by simp
      show ?thesis
      proof (cases r)
        case (Inl err)
        with False Some ex keep show ?thesis by (simp add: bfs.simps)
      next
        case (Inr result)
        from "2.IH"(3) [OF False Some ex [symmetric] Inr] keep
        show ?thesis using False Some ex Inr by (simp add: bfs.simps)
      qed
    qed
  qed
qed

lemma executeNodes_executions:
  "executions (snd (executeNodes e nodes edges executionId tid lead cx st)) = executions st"
  by (simp add: executeNodes_def bfs_executions split: option.splits)

lemmas run_simps = executeNodes_def executeNode_def perform_def next_targets_def edge_taken_def
  evaluateCondition_def bfs.simps

text \<open>
  Claim C3, on a workflow whose \<^verbatim>\<open>send_message\<close> node has no \<^verbatim>\<open>data\<close>:
  the executor throws a TypeError, which leaves \<^verbatim>\<open>executeNodes\<close> and the handler.
  The row of the Execution keeps the status \<^verbatim>\<open>'running'\<close> and the empty
  \<^verbatim>\<open>node_results\<close> it was inserted with: the error is recorded nowhere and the
  status never becomes \<^verbatim>\<open>'failed'\<close>.
\<close>

theorem worker_throw_leaves_running:
  "fst (worker env_ok lead1_job nodata_state) = Inl TypeError
   \<and> map status (executions (snd (worker env_ok lead1_job nodata_state))) = [''running'']
   \<and> map node_results (executions (snd (worker env_ok lead1_job nodata_state))) = [[]]"
  by (simp add: worker_def Let_def env_ok_def lead1_job_def nodata_state_def nodata_workflow_def
        empty_state_def context_json_def JSON_parse_def run_simps)

text \<open>
  When the graph columns arrive parsed, \<^verbatim>\<open>JSON.parse\<close> throws and the handler ends
  before its insert: the state is unchanged.
\<close>

lemma worker_parse_error:
  assumes "\<not> fails e (SelectWorkflow (workflowId j) (tenantId j))"
    and "find (\<lambda>w. wf_id w = workflowId j \<and> wf_tenant_id w = tenantId j) (workflows st) = Some w"
    and "json_columns e = AsObject"
  shows "worker e j st = (Inl SyntaxError, st)"
  using assms by (simp add: worker_def Let_def JSON_parse_def)

text \<open>
  Claim C4, as the code has it. The handler never reads \<^verbatim>\<open>run_once_per_lead\<close>
  nor the existing Executions: every job whose workflow is found, whose stored nodes and
  edges arrive as JSON text (so that both \<^verbatim>\<open>JSON.parse\<close> calls return), and whose
  lookup and insert are not rejected, adds one Execution for the job's workflow and lead,
  whatever Executions exist already.
\<close>

theorem worker_inserts_execution:
  assumes sel: "\<not> fails e (SelectWorkflow (workflowId j) (tenantId j))"
    and found: "find (\<lambda>w. wf_id w = workflowId j \<and> wf_tenant_id w = tenantId j) (workflows st) = Some w"
    and parsed: "json_columns e = AsText"
    and ins: "\<not> fails e (InsertExecution (workflowId j) (tenantId j) (leadId j) (context_json (triggerData j)))"
  shows "length (executions (snd (worker e j st))) = length (executions st) + 1
    \<and> map workflow_id (executions (snd (worker e j st))) = map workflow_id (executions st) @ [workflowId j]
    \<and> map lead_id (executions (snd (worker e j st))) = map lead_id (executions st) @ [leadId j]"
proof -
  define ex where "ex = \<lparr>ex_id = length (executions st), workflow_id = workflowId j,
      tenant_id = tenantId j, lead_id = leadId j, status = ''running'',
      ctx = context_json (triggerData j), node_results = []\<rparr>"
  define st1 where "st1 = st\<lparr>executions := executions st @ [ex]\<rparr>"
  obtain r st2 where run: "executeNodes e (wf_nodes w) (wf_edges w) (ex_id ex)
       (tenantId j) (leadId j) (triggerData j) st1 = (r, st2)"
    by (cases "executeNodes e (wf_nodes w) (wf_edges w) (ex_id ex)
       (tenantId j) (leadId j) (triggerData j) st1")
  have keep: "executions st2 = executions st @ [ex]"
    using executeNodes_executions [of e "wf_nodes w" "wf_edges w" "ex_id ex"
        "tenantId j" "leadId j" "triggerData j" st1] run by (simp add: st1_def)
  have w1: "map workflow_id (executions st2) = map workflow_id (executions st) @ [workflowId j]"
    and l1: "map lead_id (executions st2) = map lead_id (executions st) @ [leadId j]"
    by (simp_all add: keep ex_def)
  have wk: "worker e j st =
      (case r of
         Inl err \<Rightarrow> (Inl err, st2)
       | Inr results \<Rightarrow>
           if fails e (CompleteExecution (ex_id ex) results)
           then (Inl (CollaboratorError (CompleteExecution (ex_id ex) results)), st2)
           else (Inr (ex_id ex, results),
                 st2\<lparr>executions :=
                   map (\<lambda>x. if ex_id x = ex_id ex
                             then x\<lparr>status := ''completed'', node_results := results\<rparr>
                             else x)
                       (executions st2)\<rparr>))"
    using sel found ins run
    by (simp add: worker_def Let_def JSON_parse_def parsed ex_def [symmetric] st1_def [symmetric]
        split: sum.splits)
  have "map workflow_id (executions (snd (worker e j st))) = map workflow_id (executions st2)
      \<and> map lead_id (executions (snd (worker e j st))) = map lead_id (executions st2)"
    unfolding wk
    by (cases r) (simp_all add: o_def if_distrib cong: if_cong)
  with w1 l1 have both: "map workflow_id (executions (snd (worker e j st))) = map workflow_id (executions st) @ [workflowId j]
    \<and> map lead_id (executions (snd (worker e j st))) = map lead_id (executions st) @ [leadId j]"
    by simp
  then have "length (map workflow_id (executions (snd (worker e j st)))) = length (map workflow_id (executions st) @ [workflowId j])"
    by simp
  then have "length (executions (snd (worker e j st))) = length (executions st) + 1"
    by simp
  with both show ?thesis by simp
qed

text \<open>
  The same job processed twice on a workflow with \<^verbatim>\<open>run_once_per_lead\<close> set.
\<close>

theorem worker_inserts_execution_witness:
  "map workflow_id (executions (snd (worker env_ok lead1_job (snd (worker env_ok lead1_job nodata_state)))))
     = [''w1'', ''w1'']
   \<and> map lead_id (executions (snd (worker env_ok lead1_job (snd (worker env_ok lead1_job nodata_state)))))
     = [Some ''lead1'', Some ''lead1'']"
proof -
  have first: "snd (worker env_ok lead1_job nodata_state) = nodata_state\<lparr>executions :=
     [\<lparr>ex_id = 0, workflow_id = ''w1'', tenant_id = ''t1'', lead_id = Some ''lead1'',
       status = ''running'', ctx = ''{}'', node_results = []\<rparr>]\<rparr>"
    by (simp add: worker_def Let_def env_ok_def lead1_job_def nodata_state_def nodata_workflow_def
        empty_state_def context_json_def JSON_parse_def run_simps)
  have a: "\<not> fails env_ok (SelectWorkflow (workflowId lead1_job) (tenantId lead1_job))"
    by (simp add: env_ok_def)
  have b: "find (\<lambda>w. wf_id w = workflowId lead1_job \<and> wf_tenant_id w = tenantId lead1_job)
      (workflows (snd (worker env_ok lead1_job nodata_state))) = Some nodata_workflow"
    unfolding first
    by (simp add: nodata_state_def nodata_workflow_def lead1_job_def empty_state_def)
  have t: "json_columns env_ok = AsText"
    by (simp add: env_ok_def)
  have c: "\<not> fails env_ok (InsertExecution (workflowId lead1_job) (tenantId lead1_job)
      (leadId lead1_job) (context_json (triggerData lead1_job)))"
    by (simp add: env_ok_def)
  have d: "map workflow_id (executions (snd (worker env_ok lead1_job nodata_state))) = [''w1'']"
    and e: "map lead_id (executions (snd (worker env_ok lead1_job nodata_state))) = [Some ''lead1'']"
    and f: "workflowId lead1_job = ''w1''" and g: "leadId lead1_job = Some ''lead1''"
    unfolding first by (simp_all add: lead1_job_def)
  from worker_inserts_execution [OF a b t c] show ?thesis
    unfolding d e f g by simp
qed

text \<open>
  Claim C4 as stated fails: the workflow has \<^verbatim>\<open>run_once_per_lead\<close> set, its
  first Execution for \<open>lead1\<close> is still \<^verbatim>\<open>'running'\<close>, and the second job for
  \<open>lead1\<close> adds a second \<^verbatim>\<open>'running'\<close> Execution of the same workflow.
\<close>

theorem run_once_counterexample:
  "map run_once_per_lead (workflows nodata_state) = [True]
   \<and> map workflow_id (executions (snd (worker env_ok lead1_job (snd (worker env_ok lead1_job nodata_state)))))
     = [''w1'', ''w1'']
   \<and> map lead_id (executions (snd (worker env_ok lead1_job (snd (worker env_ok lead1_job nodata_state)))))
     = [Some ''lead1'', Some ''lead1'']
   \<and> map status (executions (snd (worker env_ok lead1_job (snd (worker env_ok lead1_job nodata_state)))))
     = [''running'', ''running'']"
proof -
  have first: "snd (worker env_ok lead1_job nodata_state) = nodata_state\<lparr>executions :=
     [\<lparr>ex_id = 0, workflow_id = ''w1'', tenant_id = ''t1'', lead_id = Some ''lead1'',
       status = ''running'', ctx = ''{}'', node_results = []\<rparr>]\<rparr>"
    by (simp add: worker_def Let_def env_ok_def lead1_job_def nodata_state_def nodata_workflow_def
        empty_state_def context_json_def JSON_parse_def run_simps)
  show ?thesis
    unfolding first
    by (simp add: worker_def Let_def env_ok_def lead1_job_def nodata_state_def nodata_workflow_def
        empty_state_def context_json_def JSON_parse_def run_simps)
qed

section \<open>Activation\<close>

text \<open>
  Claim C5, as the code has it. Activation validates nothing: for every workflow of the
  tenant, whatever its nodes and edges, the route replies with success and the workflow's
  status is \<^verbatim>\<open>'active'\<close> afterwards (unless the \<^verbatim>\<open>UPDATE\<close> itself is rejected).
\<close>

theorem activate_unconditional:
  assumes "\<not> fails e (ActivateWorkflow wid tid)" and "w \<in> set (workflows st)"
    and "wf_id w = wid" and "wf_tenant_id w = tid"
  shows "fst (activate e wid tid st) = Inr (Reply 200 True [(''message'', Str ''Workflow activated'')])
    \<and> w\<lparr>wf_status := ''active''\<rparr> \<in> set (workflows (snd (activate e wid tid st)))"
proof -
  have "w\<lparr>wf_status := ''active''\<rparr> \<in>
      (\<lambda>w. if wf_id w = wid \<and> wf_tenant_id w = tid then w\<lparr>wf_status := ''active''\<rparr> else w) ` set (workflows st)"
    using assms(2) by (rule rev_image_eqI) (simp add: assms(3,4))
  then show ?thesis
    using assms(1) by (simp add: activate_def Let_def)
qed

text \<open>
  Activation of the workflow with the edge to \<open>ghost\<close>.
\<close>

theorem activate_unconditional_witness:
  "fst (activate env_ok ''w2'' ''t1'' dangling_state)
     = Inr (Reply 200 True [(''message'', Str ''Workflow activated'')])
   \<and> dangling_workflow\<lparr>wf_status := ''active''\<rparr>
       \<in> set (workflows (snd (activate env_ok ''w2'' ''t1'' dangling_state)))"
proof -
  have a: "\<not> fails env_ok (ActivateWorkflow ''w2'' ''t1'')"
    and b: "dangling_workflow \<in> set (workflows dangling_state)"
    and c: "wf_id dangling_workflow = ''w2''" and d: "wf_tenant_id dangling_workflow = ''t1''"
    by (simp_all add: env_ok_def dangling_state_def dangling_workflow_def empty_state_def)
  from activate_unconditional [OF a b c d] show ?thesis .
qed

text \<open>
  Claim C5 as stated fails: the only edge of the draft workflow targets \<open>ghost\<close>,
  no node has this id, and yet activation succeeds and the workflow is active.
\<close>

theorem activate_dangling_counterexample:
  "map target (wf_edges dangling_workflow) = [''ghost'']
   \<and> ''ghost'' \<notin> set (map nid (wf_nodes dangling_workflow))
   \<and> map wf_status (workflows dangling_state) = [''draft'']
   \<and> fst (activate env_ok ''w2'' ''t1'' dangling_state)
       = Inr (Reply 200 True [(''message'', Str ''Workflow activated'')])
   \<and> map wf_status (workflows (snd (activate env_ok ''w2'' ''t1'' dangling_state))) = [''active'']"
  by (simp add: activate_def Let_def env_ok_def dangling_state_def dangling_workflow_def empty_state_def)

section \<open>The throttle gate\<close>

text \<open>The same node on another reputation map and another message count.\<close>

lemma executeNode_gate_independent:
  "executeNode (e\<lparr>messagesInLastHour := f\<rparr>) n tid lead cx (st\<lparr>reputationScores := rs\<rparr>)
     = (fst (executeNode e n tid lead cx st),
        (snd (executeNode e n tid lead cx st))\<lparr>reputationScores := rs\<rparr>)"
  by (simp add: executeNode_def perform_def split: option.splits)

text \<open>
  Claim C6, as the code has it. The executors of \<^verbatim>\<open>send_message\<close>,
  \<^verbatim>\<open>send_email\<close> and \<^verbatim>\<open>webhook\<close> never consult the gate. A
  \<^verbatim>\<open>send_message\<close> node enqueues the job \<^verbatim>\<open>send-message\<close> with the tenant, the
  lead, and the node's channel and content, and returns \<^verbatim>\<open>{ sent: true }\<close>; a
  \<^verbatim>\<open>send_email\<close> node does so with the channel \<^verbatim>\<open>email\<close> and the node's content
  and subject; a \<^verbatim>\<open>webhook\<close> node enqueues the job \<^verbatim>\<open>send-webhook\<close> with the
  tenant, the node's url, the lead and the context, and returns
  \<^verbatim>\<open>{ webhookSent: true }\<close>. The node throws only when \<^verbatim>\<open>addJob\<close> itself rejects,
  and then nothing is enqueued. The outcome is the same for every reputation map and
  every message count, that is, whatever \<^verbatim>\<open>checkRateLimit\<close> would answer.
\<close>

theorem send_ignores_gate:
  assumes "ndata n = Some d"
  shows "(ntype n = ''send_message'' \<longrightarrow>
            executeNode e n tid lead cx st =
              (if fails e (AddJob ''messages'' ''send-message''
                     [(''tenantId'', Some tid), (''leadId'', lead),
                      (''channel'', channel d), (''content'', content d)])
               then (Inl (CollaboratorError (AddJob ''messages'' ''send-message''
                     [(''tenantId'', Some tid), (''leadId'', lead),
                      (''channel'', channel d), (''content'', content d)])), st)
               else (Inr Sent, st\<lparr>effects := effects st @ [AddJob ''messages'' ''send-message''
                     [(''tenantId'', Some tid), (''leadId'', lead),
                      (''channel'', channel d), (''content'', content d)]]\<rparr>)))
       \<and> (ntype n = ''send_email'' \<longrightarrow>
            executeNode e n tid lead cx st =
              (if fails e (AddJob ''messages'' ''send-message''
                     [(''tenantId'', Some tid), (''leadId'', lead),
                      (''channel'', Some ''email''), (''content'', content d),
                      (''subject'', subject d)])
               then (Inl (CollaboratorError (AddJob ''messages'' ''send-message''
                     [(''tenantId'', Some tid), (''leadId'', lead),
                      (''channel'', Some ''email''), (''content'', content d),
                      (''subject'', subject d)])), st)
               else (Inr Sent, st\<lparr>effects := effects st @ [AddJob ''messages'' ''send-message''
                     [(''tenantId'', Some tid), (''leadId'', lead),
                      (''channel'', Some ''email''), (''content'', content d),
                      (''subject'', subject d)]]\<rparr>)))
       \<and> (ntype n = ''webhook'' \<longrightarrow>
            executeNode e n tid lead cx st =
              (if fails e (AddJob ''messages'' ''send-webhook''
                     [(''tenantId'', Some tid), (''url'', url d),
                      (''payload.leadId'', lead), (''payload.context'', cx)])
               then (Inl (CollaboratorError (AddJob ''messages'' ''send-webhook''
                     [(''tenantId'', Some tid), (''url'', url d),
                      (''payload.leadId'', lead), (''payload.context'', cx)])), st)
               else (Inr WebhookSent, st\<lparr>effects := effects st @ [AddJob ''messages'' ''send-webhook''
                     [(''tenantId'', Some tid), (''url'', url d),
                      (''payload.leadId'', lead), (''payload.context'', cx)]]\<rparr>)))
       \<and> executeNode (e\<lparr>messagesInLastHour := f\<rparr>) n tid lead cx (st\<lparr>reputationScores := rs\<rparr>)
           = (fst (executeNode e n tid lead cx st),
              (snd (executeNode e n tid lead cx st))\<lparr>reputationScores := rs\<rparr>)"
proof (intro conjI impI)
  assume "ntype n = ''send_message''"
  then show "executeNode e n tid lead cx st =
              (if fails e (AddJob ''messages'' ''send-message''
                     [(''tenantId'', Some tid), (''leadId'', lead),
                      (''channel'', channel d), (''content'', content d)])
               then (Inl (CollaboratorError (AddJob ''messages'' ''send-message''
                     [(''tenantId'', Some tid), (''leadId'', lead),
                      (''channel'', channel d), (''content'', content d)])), st)
               else (Inr Sent, st\<lparr>effects := effects st @ [AddJob ''messages'' ''send-message''
                     [(''tenantId'', Some tid), (''leadId'', lead),
                      (''channel'', channel d), (''content'', content d)]]\<rparr>))"
    using assms by (simp add: executeNode_def perform_def)
next
  assume "ntype n = ''send_email''"
  then show "executeNode e n tid lead cx st =
              (if fails e (AddJob ''messages'' ''send-message''
                     [(''tenantId'', Some tid), (''leadId'', lead),
                      (''channel'', Some ''email''), (''content'', content d),
                      (''subject'', subject d)])
               then (Inl (CollaboratorError (AddJob ''messages'' ''send-message''
                     [(''tenantId'', Some tid), (''leadId'', lead),
                      (''channel'', Some ''email''), (''content'', content d),
                      (''subject'', subject d)])), st)
               else (Inr Sent, st\<lparr>effects := effects st @ [AddJob ''messages'' ''send-message''
                     [(''tenantId'', Some tid), (''leadId'', lead),
                      (''channel'', Some ''email''), (''content'', content d),
                      (''subject'', subject d)]]\<rparr>))"
    using assms by (simp add: executeNode_def perform_def)
next
  assume "ntype n = ''webhook''"
  then show "executeNode e n tid lead cx st =
              (if fails e (AddJob ''messages'' ''send-webhook''
                     [(''tenantId'', Some tid), (''url'', url d),
                      (''payload.leadId'', lead), (''payload.context'', cx)])
               then (Inl (CollaboratorError (AddJob ''messages'' ''send-webhook''
                     [(''tenantId'', Some tid), (''url'', url d),
                      (''payload.leadId'', lead), (''payload.context'', cx)])), st)
               else (Inr WebhookSent, st\<lparr>effects := effects st @ [AddJob ''messages'' ''send-webhook''
                     [(''tenantId'', Some tid), (''url'', url d),
                      (''payload.leadId'', lead), (''payload.context'', cx)]]\<rparr>))"
    using assms by (simp add: executeNode_def perform_def)
next
  show "executeNode (e\<lparr>messagesInLastHour := f\<rparr>) n tid lead cx (st\<lparr>reputationScores := rs\<rparr>)
           = (fst (executeNode e n tid lead cx st),
              (snd (executeNode e n tid lead cx st))\<lparr>reputationScores := rs\<rparr>)"
    by (rule executeNode_gate_independent)
qed

text \<open>
  A \<^verbatim>\<open>send_message\<close> node for a tenant whose reputation map holds one recorded
  success and who has 100 messages in the last hour: the gate denies, the node sends.
\<close>

theorem send_ignores_gate_witness:
  "checkRateLimit env_busy ''t1'' ''whatsapp'' denied_state = Inr (False, Some 3600)
   \<and> executeNode env_busy send_node ''t1'' (Some ''lead1'') None denied_state
       = (Inr Sent, denied_state\<lparr>effects := effects denied_state @
            [AddJob ''messages'' ''send-message''
               [(''tenantId'', Some ''t1''), (''leadId'', Some ''lead1''),
                (''channel'', Some ''whatsapp''), (''content'', Some ''Welcome'')]]\<rparr>)"
proof -
  have a: "ndata send_node = Some (no_data\<lparr>channel := Some ''whatsapp'', content := Some ''Welcome''\<rparr>)"
    and b: "ntype send_node = ''send_message''"
    by (simp_all add: send_node_def)
  have c: "checkRateLimit env_busy ''t1'' ''whatsapp'' denied_state = Inr (False, Some 3600)"
    by (simp add: checkRateLimit_def denied_state_def empty_state_def rep_key_def
        recordMessage_def env_busy_def env_ok_def)
  have d: "\<not> fails env_busy eff" for eff
    by (simp add: env_busy_def env_ok_def)
  from send_ignores_gate [of send_node _ env_busy "''t1''" "Some ''lead1''" None denied_state
      "\<lambda>_ _. 0" Map.empty, OF a] b c d
  show ?thesis by (simp add: no_data_def)
qed

text \<open>
  Claim C6 as stated fails: after one recorded success and with 100 messages in the last
  hour \<^verbatim>\<open>checkRateLimit\<close> answers \<^verbatim>\<open>allowed: false\<close> for the tenant and channel,
  and the node enqueues the message and returns \<^verbatim>\<open>{ sent: true }\<close> all the same.
\<close>

theorem gate_denied_counterexample:
  "reputationScores denied_state = recordMessages
       [\<lparr>mc_tenantId = ''t1'', mc_channel = ''whatsapp'', mc_success = True, mc_now = 0, mc_now' = 0\<rparr>]
       Map.empty
   \<and> checkRateLimit env_busy ''t1'' ''whatsapp'' denied_state = Inr (False, Some 3600)
   \<and> fst (executeNode env_busy send_node ''t1'' (Some ''lead1'') None denied_state) = Inr Sent
   \<and> effects (snd (executeNode env_busy send_node ''t1'' (Some ''lead1'') None denied_state))
       = [AddJob ''messages'' ''send-message''
            [(''tenantId'', Some ''t1''), (''leadId'', Some ''lead1''),
             (''channel'', Some ''whatsapp''), (''content'', Some ''Welcome'')]]"
  by (simp add: checkRateLimit_def denied_state_def empty_state_def rep_key_def recordMessage_def
      executeNode_def send_node_def perform_def env_busy_def env_ok_def no_data_def)

section \<open>Edge conditions\<close>

text \<open>
  Claim C7, on an edge whose condition names \<^verbatim>\<open>context.plan\<close> while the trigger
  payload is empty: \<^verbatim>\<open>evaluateCondition\<close> does not throw, but it answers
  \<^verbatim>\<open>true\<close>; the edge is taken and its target node runs.
\<close>

theorem condition_on_absent_variable_taken:
  "evaluateCondition ''context.plan == 1'' Triggered = True
   \<and> next_targets cond_edges ''t'' Triggered = [''e'']
   \<and> fst (executeNodes env_ok cond_nodes cond_edges 0 ''t1'' None None empty_state)
       = Inr [(''t'', Triggered), (''e'', Ended)]"
  by (simp add: cond_nodes_def cond_edges_def run_simps)

section \<open>The execute entry point\<close>

text \<open>
  Claim C8, as the code has it. \<^verbatim>\<open>execute\<close> returns as soon as the job is
  enqueued; its result has the fields \<^verbatim>\<open>jobId\<close> and \<^verbatim>\<open>status\<close>, the status
  being \<^verbatim>\<open>'queued'\<close>. No Execution exists yet at that point.
\<close>

theorem execute_returns_job:
  assumes "\<not> fails e (AddJob ''workflows'' ''execute-workflow''
         [(''workflowId'', Some wid), (''tenantId'', Some (d_tenantId d)),
          (''leadId'', d_leadId d), (''triggerData'', d_triggerData d)])"
  shows "fst (execute e wid d st) = Inr [(''jobId'', Num (length (effects st))), (''status'', Str ''queued'')]
    \<and> effects (snd (execute e wid d st)) = effects st @ [AddJob ''workflows'' ''execute-workflow''
         [(''workflowId'', Some wid), (''tenantId'', Some (d_tenantId d)),
          (''leadId'', d_leadId d), (''triggerData'', d_triggerData d)]]
    \<and> executions (snd (execute e wid d st)) = executions st"
  using assms by (simp add: execute_def perform_def)

text \<open>
  A call for \<open>lead1\<close> before any job was enqueued.
\<close>

theorem execute_returns_job_witness:
  "fst (execute env_ok ''w1'' lead1_data nodata_state) = Inr [(''jobId'', Num 0), (''status'', Str ''queued'')]
   \<and> executions (snd (execute env_ok ''w1'' lead1_data nodata_state)) = []"
proof -
  have a: "\<not> fails env_ok (AddJob ''workflows'' ''execute-workflow''
         [(''workflowId'', Some ''w1''), (''tenantId'', Some (d_tenantId lead1_data)),
          (''leadId'', d_leadId lead1_data), (''triggerData'', d_triggerData lead1_data)])"
    by (simp add: env_ok_def)
  from execute_returns_job [OF a, of nodata_state] show ?thesis
    by (simp add: nodata_state_def empty_state_def)
qed

text \<open>
  Claim C8 as stated fails: the result of \<^verbatim>\<open>execute\<close> has no field
  \<^verbatim>\<open>executionId\<close> (nor \<^verbatim>\<open>id\<close>, which the trigger route reads).
\<close>

theorem execute_executionId_counterexample:
  "fst (execute env_ok ''w1'' lead1_data nodata_state) = Inr [(''jobId'', Num 0), (''status'', Str ''queued'')]
   \<and> map fst [(''jobId'', Num 0), (''status'', Str ''queued'')] = [''jobId'', ''status'']
   \<and> field [(''jobId'', Num 0), (''status'', Str ''queued'')] ''executionId'' = Undefined
   \<and> fst (trigger_route env_ok ''w1'' ''t1'' (Some ''lead1'') None nodata_state)
       = Inr (Reply 200 True [(''executionId'', Undefined), (''status'', Str ''queued'')])"
  by (simp add: execute_def perform_def env_ok_def nodata_state_def empty_state_def field_def
      trigger_route_def Let_def nodata_workflow_def lead1_data_def)

section \<open>Reputation scores\<close>

lemma calculateScore_range: "0 \<le> calculateScore r now \<and> calculateScore r now \<le> 100"
  by (simp add: calculateScore_def Let_def)

lemma recordMessage_inv:
  assumes inv: "\<And>k r. m k = Some r \<Longrightarrow> 0 \<le> score r \<and> score r \<le> 100 \<and> 0 < messagesSent r"
    and got: "recordMessage tid ch success now now' m k = Some r"
  shows "0 \<le> score r \<and> score r \<le> 100 \<and> 0 < messagesSent r"
proof (cases "k = rep_key tid ch")
  case False
  then have "m k = Some r"
    using got by (simp add: recordMessage_def Let_def split: option.splits)
  then show ?thesis by (rule inv)
next
  case True
  show ?thesis
  proof (cases "m (rep_key tid ch)")
    case None
    then show ?thesis
      using got True by (auto simp: recordMessage_def)
  next
    case (Some existing)
    then show ?thesis
      using got True calculateScore_range
      by (auto simp: recordMessage_def Let_def)
  qed
qed

lemma recordMessages_inv:
  "(\<And>k r. m k = Some r \<Longrightarrow> 0 \<le> score r \<and> score r \<le> 100 \<and> 0 < messagesSent r) \<Longrightarrow>
   recordMessages calls m k = Some r \<Longrightarrow> 0 \<le> score r \<and> score r \<le> 100 \<and> 0 < messagesSent r"
proof (induction calls arbitrary: m k r)
  case Nil
  then show ?case by simp
next
  case (Cons c cs)
  show ?case
  proof (rule Cons.IH [of "recordMessage (mc_tenantId c) (mc_channel c) (mc_success c) (mc_now c) (mc_now' c) m" k r])
    fix k' r'
    assume "recordMessage (mc_tenantId c) (mc_channel c) (mc_success c) (mc_now c) (mc_now' c) m k' = Some r'"
    then show "0 \<le> score r' \<and> score r' \<le> 100 \<and> 0 < messagesSent r'"
      using Cons.prems(1) recordMessage_inv by blast
  next
    show "recordMessages cs (recordMessage (mc_tenantId c) (mc_channel c) (mc_success c) (mc_now c) (mc_now' c) m) k = Some r"
      using Cons.prems(2) by simp
  qed
qed

text \<open>
  Claim C9. After any sequence of \<^verbatim>\<open>recordMessage\<close> calls on the initially empty
  map, every stored score lies in the closed interval from 0 to 100. A new entry starts
  at 100 after a success and at 90 after a failure; an existing entry gets the score
  \<^verbatim>\<open>calculateScore\<close> computes on the incremented counters, which is clamped to the
  interval.
\<close>

theorem reputation_score_in_range:
  "(recordMessages calls Map.empty k = Some r \<longrightarrow> 0 \<le> score r \<and> score r \<le> 100)
   \<and> (m (rep_key tid ch) = None \<longrightarrow>
        map_option score (recordMessage tid ch success now now' m (rep_key tid ch))
          = Some (if success then 100 else 90))
   \<and> (m (rep_key tid ch) = Some existing \<longrightarrow>
        (\<exists>r'. messagesSent r' = messagesSent existing + 1
           \<and> map_option score (recordMessage tid ch success now now' m (rep_key tid ch))
                = Some (calculateScore r' now')
           \<and> 0 \<le> calculateScore r' now' \<and> calculateScore r' now' \<le> 100))"
proof (intro conjI impI)
  assume "recordMessages calls Map.empty k = Some r"
  then have "0 \<le> score r \<and> score r \<le> 100 \<and> 0 < messagesSent r"
    by (rule recordMessages_inv [rotated]) simp
  then show "0 \<le> score r" and "score r \<le> 100" by simp_all
next
  assume "m (rep_key tid ch) = None"
  then show "map_option score (recordMessage tid ch success now now' m (rep_key tid ch))
          = Some (if success then 100 else 90)"
    by (simp add: recordMessage_def)
next
  assume "m (rep_key tid ch) = Some existing"
  then show "\<exists>r'. messagesSent r' = messagesSent existing + 1
           \<and> map_option score (recordMessage tid ch success now now' m (rep_key tid ch))
                = Some (calculateScore r' now')
           \<and> 0 \<le> calculateScore r' now' \<and> calculateScore r' now' \<le> 100"
    using calculateScore_range
    by (intro exI [of _ "existing\<lparr>messagesSent := messagesSent existing + 1,
                     messagesFailed := (if \<not> success then messagesFailed existing + 1
                                        else messagesFailed existing),
                     lastMessageAt := now\<rparr>"]) (simp add: recordMessage_def Let_def)
qed

text \<open>
  A success followed by a failure five seconds later, for the same tenant and channel.
\<close>

theorem reputation_score_in_range_witness:
  "recordMessages two_calls Map.empty ''t1:sms''
     = Some \<lparr>rs_tenantId = ''t1'', rs_channel = ''sms'', score = 65, messagesSent = 2,
         messagesFailed = 1, lastMessageAt = 5000\<rparr>
   \<and> (0::real) \<le> 65 \<and> (65::real) \<le> 100
   \<and> map_option score (recordMessage ''t1'' ''sms'' False 0 0 Map.empty (rep_key ''t1'' ''sms'')) = Some 90"
proof -
  have a: "recordMessages two_calls Map.empty ''t1:sms''
     = Some \<lparr>rs_tenantId = ''t1'', rs_channel = ''sms'', score = 65, messagesSent = 2,
         messagesFailed = 1, lastMessageAt = 5000\<rparr>"
    by (simp add: two_calls_def recordMessage_def rep_key_def calculateScore_def Let_def)
  have b: "Map.empty (rep_key ''t1'' ''sms'') = (None :: ReputationScore option)"
    by simp
  from reputation_score_in_range [of two_calls "''t1:sms''" _ Map.empty "''t1''" "''sms''" False 0 0] a b
  show ?thesis by simp
qed

end
